theory Spec2Isabelle
  imports Complex_Main "HOL-Library.AList" "HOL-Library.Sublist"
begin

section \<open>The caching xkcd proxy of \<^verbatim>\<open>xkcd-api.ts\<close>\<close>

text \<open>
  The server keeps one process-wide \<^verbatim>\<open>Map\<close> from cache keys to entries, answers each
  request from it or from one upstream fetch (two for \<^verbatim>\<open>/random\<close>), and wraps the outcome
  in a JSON envelope. The embedding below follows the source function by function:
  \<^item> the mutable \<^verbatim>\<open>cache\<close>, the clock read by \<^verbatim>\<open>Date.now()\<close> and the list of upstream
    URLs requested so far form an explicit \<open>world\<close> that every function takes and returns;
  \<^item> the \<^verbatim>\<open>Map\<close> is an association list in insertion order, which is what \<^verbatim>\<open>cache.keys()\<close>
    enumerates; \<open>AList.update\<close> overwrites in place or appends, \<open>AList.delete\<close> removes;
  \<^item> a thrown exception is the \<open>Inl\<close> of a sum, and the world is returned next to it, since
    a store mutation made before the throw stays made;
  \<^item> the runtime's answers (the upstream's reply to a URL and how long it took, the value of
    \<^verbatim>\<open>Math.random()\<close>) are the fields of an \<open>env\<close> the handler receives.
  One request is run at a time; console output is not part of the model.
\<close>

subsection \<open>JSON payloads\<close>

datatype json =
    JNull
  | JBool bool
  | JNum rat
  | JStr string
  | JArr "json list"
  | JObj "(string \<times> json) list"

text \<open>JavaScript truthiness of a parsed JSON value, as tested by \<^verbatim>\<open>if (cached)\<close>.\<close>

fun truthy :: "json \<Rightarrow> bool" where
  "truthy JNull = False"
| "truthy (JBool b) = b"
| "truthy (JNum q) = (q \<noteq> 0)"
| "truthy (JStr s) = (s \<noteq> [])"
| "truthy (JArr xs) = True"
| "truthy (JObj fs) = True"

subsection \<open>Numbers and their decimal text\<close>

text \<open>
  The comic number handed to \<^verbatim>\<open>getXkcdByNumber\<close> is an integer-valued number or \<^verbatim>\<open>NaN\<close>:
  \<^verbatim>\<open>parseInt\<close> of a digit string and \<^verbatim>\<open>Math.floor(...) + 1\<close> produce nothing else. Integers
  are kept exact, as doubles are below \<open>2^53\<close>. The value of \<^verbatim>\<open>Math.random()\<close> and the
  numbers in a JSON payload are rationals (every finite double is one); their product and
  its floor are computed exactly.
\<close>

datatype number = Num int | NaN

definition digit_char :: "nat \<Rightarrow> char" where
  "digit_char d = ''0123456789'' ! d"

fun show_nat :: "nat \<Rightarrow> string" where
  "show_nat n = (if n < 10 then [digit_char n] else show_nat (n div 10) @ [digit_char (n mod 10)])"

declare show_nat.simps [simp del]

text \<open>The template-literal rendering \<^verbatim>\<open>${num}\<close>.\<close>

fun toString :: "number \<Rightarrow> string" where
  "toString (Num i) = (if i < 0 then CHR ''-'' # show_nat (nat (- i)) else show_nat (nat i))"
| "toString NaN = ''NaN''"

definition is_digit :: "char \<Rightarrow> bool" where
  "is_digit c = (c \<in> set ''0123456789'')"

definition digit_val :: "char \<Rightarrow> nat" where
  "digit_val c = of_char c - 48"

text \<open>
  \<^verbatim>\<open>parseInt\<close> without a radix, on the strings the numeric route passes to it (ASCII digits
  only, so neither a sign nor a radix prefix can occur): the decimal value of the longest
  prefix of digits, \<^verbatim>\<open>NaN\<close> when there is none.
\<close>

definition parseInt :: "string \<Rightarrow> number" where
  "parseInt s =
     (let ds = takeWhile is_digit s in
      if ds = [] then NaN
      else Num (int (foldl (\<lambda>acc c. 10 * acc + digit_val c) 0 ds)))"

subsection \<open>The cache store\<close>

definition CACHE_DURATION :: int where
  "CACHE_DURATION = 3600000"

record entry =
  data :: json
  timestamp :: int

record world =
  cache :: "(string \<times> entry) list"
  now :: int
  fetched :: "string list"

definition corsHeaders :: "(string \<times> string) list" where
  "corsHeaders =
     [(''Access-Control-Allow-Origin'', ''*''),
      (''Access-Control-Allow-Methods'', ''GET, POST, OPTIONS''),
      (''Access-Control-Allow-Headers'', ''Content-Type, Authorization, X-Requested-With''),
      (''Access-Control-Max-Age'', ''86400''),
      (''Content-Type'', ''application/json''),
      (''Cache-Control'', ''public, max-age=3600'')]"

text \<open>\<^verbatim>\<open>getCached\<close> returns \<^verbatim>\<open>null\<close> for an absent or stale entry, and deletes a stale one.\<close>

definition getCached :: "string \<Rightarrow> world \<Rightarrow> json \<times> world" where
  "getCached key w =
     (case map_of (cache w) key of
        None \<Rightarrow> (JNull, w)
      | Some c \<Rightarrow>
          (let age = now w - timestamp c in
           if age < CACHE_DURATION then (data c, w)
           else (JNull, w\<lparr>cache := AList.delete key (cache w)\<rparr>)))"

definition setCache :: "string \<Rightarrow> json \<Rightarrow> world \<Rightarrow> world" where
  "setCache key d w =
     w\<lparr>cache := AList.update key \<lparr>data = d, timestamp = now w\<rparr> (cache w)\<rparr>"

subsection \<open>The upstream fetch\<close>

text \<open>
  What \<^verbatim>\<open>fetch(url)\<close> followed by \<^verbatim>\<open>response.json()\<close> can do: reject (a network failure,
  a \<^verbatim>\<open>TypeError\<close> with a message), or resolve to a response with a status, a status text and
  a body that parses to a JSON value or makes \<^verbatim>\<open>json()\<close> throw a \<^verbatim>\<open>SyntaxError\<close>.
\<close>

datatype fetch_result =
    Rejected string
  | Resolved nat string "string + json"

datatype error = Error string | TypeError string | SyntaxError string

fun message :: "error \<Rightarrow> string" where
  "message (Error m) = m"
| "message (TypeError m) = m"
| "message (SyntaxError m) = m"

text \<open>\<^verbatim>\<open>response.ok\<close>: the status is in the range 200 to 299.\<close>

definition ok :: "nat \<Rightarrow> bool" where
  "ok st = (200 \<le> st \<and> st \<le> 299)"

text \<open>
  The runtime around one request: \<open>fetch url\<close> is how long the upstream took to answer
  (in milliseconds) and what it answered, \<open>random\<close> is the value of \<^verbatim>\<open>Math.random()\<close>, and
  \<open>coerce\<close> is the language's conversion to a number of a string or an array (\<open>None\<close> for
  \<^verbatim>\<open>NaN\<close>), which the model does not spell out.
\<close>

record env =
  fetch :: "string \<Rightarrow> int \<times> fetch_result"
  random :: rat
  coerce :: "json \<Rightarrow> rat option"

text \<open>The object \<^verbatim>\<open>{ data, cached }\<close> that the fetch functions return.\<close>

record result =
  payload :: json
  cached :: bool

definition fetchWithCache :: "env \<Rightarrow> string \<Rightarrow> string \<Rightarrow> world \<Rightarrow> (error + result) \<times> world" where
  "fetchWithCache e url cacheKey w =
     (let (hit, w1) = getCached cacheKey w in
      if truthy hit then (Inr \<lparr>payload = hit, cached = True\<rparr>, w1)
      else
        (let (latency, outcome) = fetch e url;
             w2 = w1\<lparr>now := now w1 + latency, fetched := fetched w1 @ [url]\<rparr> in
         case outcome of
           Rejected m \<Rightarrow> (Inl (TypeError m), w2)
         | Resolved st reason body \<Rightarrow>
             if \<not> ok st then (Inl (Error (''HTTP '' @ show_nat st @ '': '' @ reason)), w2)
             else
               (case body of
                  Inl m \<Rightarrow> (Inl (SyntaxError m), w2)
                | Inr d \<Rightarrow> (Inr \<lparr>payload = d, cached = False\<rparr>, setCache cacheKey d w2))))"

subsection \<open>The API functions\<close>

definition getLatestXkcd :: "env \<Rightarrow> world \<Rightarrow> (error + result) \<times> world" where
  "getLatestXkcd e w = fetchWithCache e ''https://xkcd.com/info.0.json'' ''latest'' w"

definition getXkcdByNumber :: "env \<Rightarrow> number \<Rightarrow> world \<Rightarrow> (error + result) \<times> world" where
  "getXkcdByNumber e num w =
     fetchWithCache e (''https://xkcd.com/'' @ toString num @ ''/info.0.json'')
       (''comic-'' @ toString num) w"

text \<open>
  \<^verbatim>\<open>latest.num\<close>: reading a property of \<^verbatim>\<open>null\<close> throws; an object yields its member or
  \<^verbatim>\<open>undefined\<close> (\<open>None\<close>); any other JSON value has no such property.
\<close>

fun num_property :: "json \<Rightarrow> error + json option" where
  "num_property JNull = Inl (TypeError ''Cannot read properties of null (reading 'num')'')"
| "num_property (JObj fs) = Inr (map_of fs ''num'')"
| "num_property v = Inr None"

text \<open>The conversion to a number that \<^verbatim>\<open>*\<close> applies to its operand; \<open>None\<close> is \<^verbatim>\<open>NaN\<close>.\<close>

fun toNumber :: "env \<Rightarrow> json option \<Rightarrow> rat option" where
  "toNumber e None = None"
| "toNumber e (Some JNull) = Some 0"
| "toNumber e (Some (JBool b)) = Some (if b then 1 else 0)"
| "toNumber e (Some (JNum q)) = Some q"
| "toNumber e (Some (JObj fs)) = None"
| "toNumber e (Some v) = coerce e v"

text \<open>\<^verbatim>\<open>Math.floor(Math.random() * latest.num) + 1\<close>.\<close>

definition randomNum :: "rat \<Rightarrow> rat option \<Rightarrow> number" where
  "randomNum r n = (case n of None \<Rightarrow> NaN | Some q \<Rightarrow> Num (\<lfloor>r * q\<rfloor> + 1))"

definition getRandomXkcd :: "env \<Rightarrow> world \<Rightarrow> (error + result) \<times> world" where
  "getRandomXkcd e w =
     (case getLatestXkcd e w of
        (Inl err, w1) \<Rightarrow> (Inl err, w1)
      | (Inr latest, w1) \<Rightarrow>
          (case num_property (payload latest) of
             Inl err \<Rightarrow> (Inl err, w1)
           | Inr n \<Rightarrow> getXkcdByNumber e (randomNum (random e) (toNumber e n)) w1))"

subsection \<open>The request handler\<close>

text \<open>A request, by its method (\<^verbatim>\<open>req.method\<close>) and the \<^verbatim>\<open>pathname\<close> of its URL.\<close>

record request =
  http_method :: string
  pathname :: string

text \<open>
  The response body before \<^verbatim>\<open>JSON.stringify\<close>: nothing (preflight), the success envelope
  \<^verbatim>\<open>{success: true, data, cached, endpoint, timestamp}\<close> with the timestamp as the clock
  reading it renders, or the failure envelope \<^verbatim>\<open>{success: false, error}\<close> with the
  \<^verbatim>\<open>path\<close> member of the not-found answer when there is one.
\<close>

datatype body =
    NoBody
  | Success json bool string int
  | Failure string "string option"

record response =
  status :: nat
  headers :: "(string \<times> string) list"
  content :: body

text \<open>The pattern \<^verbatim>\<open>/^\/\d+$/\<close>: a slash followed by one or more digits and nothing else.\<close>

definition number_route :: "string \<Rightarrow> bool" where
  "number_route path =
     (case path of [] \<Rightarrow> False | c # ds \<Rightarrow> c = CHR ''/'' \<and> ds \<noteq> [] \<and> list_all is_digit ds)"

text \<open>
  The \<^verbatim>\<open>switch (true)\<close> of the handler: the first matching case gives the endpoint label
  and runs its operation; \<open>None\<close> is the \<^verbatim>\<open>default\<close> case.
\<close>

definition route :: "env \<Rightarrow> string \<Rightarrow> world \<Rightarrow> (string \<times> (error + result) \<times> world) option" where
  "route e path w =
     (if path = ''/'' \<or> path = ''/latest'' then Some (''latest'', getLatestXkcd e w)
      else if path = ''/random'' then Some (''random'', getRandomXkcd e w)
      else if number_route path then
        (let num = parseInt (drop 1 path) in
         Some (''comic-'' @ toString num, getXkcdByNumber e num w))
      else if path = ''/cache/stats'' then
        Some (path,
          Inr \<lparr>payload = JObj [(''size'', JNum (of_nat (length (cache w)))),
                               (''keys'', JArr (map (\<lambda>p. JStr (fst p)) (cache w))),
                               (''maxAge'', JNum (of_int CACHE_DURATION))],
               cached = False\<rparr>, w)
      else if path = ''/cache/clear'' then
        (let w1 = w\<lparr>cache := []\<rparr> in
         Some (path,
           Inr \<lparr>payload = JObj [(''message'', JStr ''Cache cleared''),
                                (''previousSize'', JNum (of_nat (length (cache w1))))],
                cached = False\<rparr>, w1))
      else None)"

definition handler :: "env \<Rightarrow> request \<Rightarrow> world \<Rightarrow> response \<times> world" where
  "handler e req w =
     (let path = pathname req in
      if http_method req = ''OPTIONS'' then
        (\<lparr>status = 204, headers = corsHeaders, content = NoBody\<rparr>, w)
      else
        (case route e path w of
           None \<Rightarrow>
             (\<lparr>status = 404, headers = corsHeaders,
               content = Failure ''Not Found'' (Some path)\<rparr>, w)
         | Some (endpoint, Inr res, w1) \<Rightarrow>
             (\<lparr>status = 200,
               headers = corsHeaders @ [(''X-Cache'', if cached res then ''HIT'' else ''MISS'')],
               content = Success (payload res) (cached res) endpoint (now w1)\<rparr>, w1)
         | Some (endpoint, Inl err, w1) \<Rightarrow>
             (\<lparr>status = 500, headers = corsHeaders,
               content = Failure (if message err = [] then ''Internal Server Error''
                                  else message err) None\<rparr>, w1)))"

subsection \<open>Concrete worlds and runtimes\<close>

text \<open>
  Stores, clocks and upstreams for the concrete runs below: an empty store; a store whose
  \<^verbatim>\<open>latest\<close> entry is 3599999 ms old, and exactly one hour old; a store with a fresh
  \<^verbatim>\<open>latest\<close> entry; one with a stale \<^verbatim>\<open>latest\<close> and a fresh \<^verbatim>\<open>comic-42\<close>; an upstream
  that answers every URL with a comic, one that answers 503, and one that answers 404.
\<close>

definition w_empty :: world where
  "w_empty = \<lparr>cache = [], now = 0, fetched = []\<rparr>"

definition w_fresh :: world where
  "w_fresh = \<lparr>cache = [(''latest'', \<lparr>data = JObj [(''num'', JNum 500)], timestamp = 1000\<rparr>)],
              now = 3600999, fetched = []\<rparr>"

definition w_stale :: world where
  "w_stale = \<lparr>cache = [(''latest'', \<lparr>data = JObj [(''num'', JNum 500)], timestamp = 1000\<rparr>)],
              now = 3601000, fetched = []\<rparr>"

definition w_latest :: world where
  "w_latest = \<lparr>cache = [(''latest'', \<lparr>data = JObj [(''num'', JNum 500)], timestamp = 0\<rparr>)],
               now = 10, fetched = []\<rparr>"


definition e_up :: env where
  "e_up = \<lparr>fetch = (\<lambda>url. (5, Resolved 200 ''OK'' (Inr (JObj [(''num'', JNum 500)])))),
           random = 1 / 2, coerce = (\<lambda>v. None)\<rparr>"

definition e_503 :: env where
  "e_503 = \<lparr>fetch = (\<lambda>url. (7, Resolved 503 ''Service Unavailable'' (Inl ''Unexpected token''))),
            random = 1 / 2, coerce = (\<lambda>v. None)\<rparr>"


section \<open>Properties\<close>

subsection \<open>Facts about the store operations\<close>

lemma length_delete_distinct:
  "distinct (map fst al) \<Longrightarrow> map_of al k = Some v \<Longrightarrow> Suc (length (AList.delete k al)) = length al"
proof (induction al)
  case Nil
  then show ?case by simp
next
  case (Cons p al)
  show ?case
  proof (cases "fst p = k")
    case True
    with Cons.prems have "k \<notin> fst ` set al" by auto
    then have "AList.delete k al = al" by simp
    with True show ?thesis by (cases p) simp
  next
    case False
    with Cons show ?thesis by (cases p) auto
  qed
qed

lemma getCached_now [simp]: "now (snd (getCached k w)) = now w"
  by (simp add: getCached_def Let_def split: option.splits)

lemma getCached_fetched [simp]: "fetched (snd (getCached k w)) = fetched w"
  by (simp add: getCached_def Let_def split: option.splits)

subsection \<open>Lookup with expiry\<close>

text \<open>
  C2. \<^verbatim>\<open>getCached\<close> returns the stored payload, and leaves the world alone, when the key has
  an entry whose age \<open>now - timestamp\<close> is below one hour. In every other case it returns
  \<^verbatim>\<open>null\<close>, the key has no entry afterwards and no other key is touched. When the entry
  was there and stale, the store (a \<^verbatim>\<open>Map\<close>, so with distinct keys) is one entry smaller
  after the lookup.
\<close>

theorem getCached_ttl:
  "(\<forall>c. map_of (cache w) k = Some c \<and> now w - timestamp c < 60 * 60 * 1000
        \<longrightarrow> getCached k w = (data c, w))
   \<and> ((\<nexists>c. map_of (cache w) k = Some c \<and> now w - timestamp c < 60 * 60 * 1000)
        \<longrightarrow> fst (getCached k w) = JNull
          \<and> map_of (cache (snd (getCached k w))) k = None
          \<and> (\<forall>k'. k' \<noteq> k \<longrightarrow> map_of (cache (snd (getCached k w))) k' = map_of (cache w) k'))
   \<and> (\<forall>c. map_of (cache w) k = Some c \<and> \<not> now w - timestamp c < 60 * 60 * 1000
          \<and> distinct (map fst (cache w))
        \<longrightarrow> Suc (length (cache (snd (getCached k w)))) = length (cache w)
          \<and> k \<notin> fst ` set (cache (snd (getCached k w))))"
proof (intro conjI allI impI)
  fix c assume "map_of (cache w) k = Some c \<and> now w - timestamp c < 60 * 60 * 1000"
  then show "getCached k w = (data c, w)"
    by (simp add: getCached_def CACHE_DURATION_def)
next
  assume a: "\<nexists>c. map_of (cache w) k = Some c \<and> now w - timestamp c < 60 * 60 * 1000"
  show "fst (getCached k w) = JNull"
    using a by (simp add: getCached_def CACHE_DURATION_def Let_def split: option.splits)
  show "map_of (cache (snd (getCached k w))) k = None"
    using a
    by (simp add: getCached_def CACHE_DURATION_def Let_def AList.delete_conv' split: option.splits)
  fix k' assume "k' \<noteq> k"
  then show "map_of (cache (snd (getCached k w))) k' = map_of (cache w) k'"
    by (simp add: getCached_def Let_def split: option.splits)
next
  fix c
  assume a: "map_of (cache w) k = Some c \<and> \<not> now w - timestamp c < 60 * 60 * 1000
             \<and> distinct (map fst (cache w))"
  then have g: "getCached k w = (JNull, w\<lparr>cache := AList.delete k (cache w)\<rparr>)"
    by (simp add: getCached_def CACHE_DURATION_def)
  show "Suc (length (cache (snd (getCached k w)))) = length (cache w)"
    using a by (simp add: g length_delete_distinct)
  show "k \<notin> fst ` set (cache (snd (getCached k w)))"
    by (simp add: g AList.delete_notin_dom)
qed

theorem getCached_ttl_witness:
  "getCached ''latest'' w_fresh = (JObj [(''num'', JNum 500)], w_fresh)
   \<and> fst (getCached ''latest'' w_stale) = JNull
   \<and> length (cache (snd (getCached ''latest'' w_stale))) = 0
   \<and> map_of (cache (snd (getCached ''latest'' w_stale))) ''latest'' = None"
  using getCached_ttl [of w_fresh "''latest''"] getCached_ttl [of w_stale "''latest''"]
  by (simp add: w_fresh_def w_stale_def)

subsection \<open>Facts about \<^verbatim>\<open>fetchWithCache\<close> and the routes\<close>

lemma fetchWithCache_hit:
  "truthy (fst (getCached k w)) \<Longrightarrow>
   fetchWithCache e url k w =
     (Inr \<lparr>payload = fst (getCached k w), cached = True\<rparr>, snd (getCached k w))"
proof -
  obtain h w1 where g: "getCached k w = (h, w1)"
    by (cases "getCached k w")
  assume "truthy (fst (getCached k w))"
  with g show ?thesis
    by (simp add: fetchWithCache_def)
qed

lemma fetchWithCache_miss:
  "\<not> truthy (fst (getCached k w)) \<Longrightarrow> fetch e url = (latency, outcome) \<Longrightarrow>
   fetchWithCache e url k w =
     (let w2 = (snd (getCached k w))\<lparr>now := now w + latency, fetched := fetched w @ [url]\<rparr> in
      case outcome of
        Rejected m \<Rightarrow> (Inl (TypeError m), w2)
      | Resolved st reason body \<Rightarrow>
          if \<not> ok st then (Inl (Error (''HTTP '' @ show_nat st @ '': '' @ reason)), w2)
          else (case body of
                  Inl m \<Rightarrow> (Inl (SyntaxError m), w2)
                | Inr d \<Rightarrow> (Inr \<lparr>payload = d, cached = False\<rparr>, setCache k d w2)))"
proof -
  obtain h w1 where g: "getCached k w = (h, w1)"
    by (cases "getCached k w")
  have n: "now w1 = now w" "fetched w1 = fetched w"
    using getCached_now [of k w] getCached_fetched [of k w] g by simp_all
  assume "\<not> truthy (fst (getCached k w))" "fetch e url = (latency, outcome)"
  with g n show ?thesis
    by (simp add: fetchWithCache_def Let_def split: fetch_result.splits sum.splits)
qed

lemma getCached_setCache:
  "t - now w < CACHE_DURATION \<Longrightarrow>
   getCached k ((setCache k v w)\<lparr>now := t\<rparr>) = (v, (setCache k v w)\<lparr>now := t\<rparr>)"
  by (simp add: getCached_def setCache_def AList.update_conv')

lemma number_route_Cons:
  "number_route (CHR ''/'' # ds) = (ds \<noteq> [] \<and> list_all is_digit ds)"
  by (simp add: number_route_def)

lemma route_clear:
  "route e ''/cache/clear'' w =
     Some (''/cache/clear'',
           Inr \<lparr>payload = JObj [(''message'', JStr ''Cache cleared''), (''previousSize'', JNum 0)],
                cached = False\<rparr>, w\<lparr>cache := []\<rparr>)"
  by (simp add: route_def number_route_def is_digit_def)

subsection \<open>Clearing the cache\<close>

text \<open>
  For every cache state the handler empties the store first and reads \<^verbatim>\<open>cache.size\<close>
  afterwards, so the reported \<^verbatim>\<open>previousSize\<close> is 0 whatever the store held.
\<close>

lemma clear_always_reports_zero:
  "handler e \<lparr>http_method = ''GET'', pathname = ''/cache/clear''\<rparr> w =
     (\<lparr>status = 200, headers = corsHeaders @ [(''X-Cache'', ''MISS'')],
       content = Success (JObj [(''message'', JStr ''Cache cleared''), (''previousSize'', JNum 0)])
                   False ''/cache/clear'' (now w)\<rparr>,
      w\<lparr>cache := []\<rparr>)"
  by (simp add: handler_def route_clear)

text \<open>
  C1. \<^verbatim>\<open>GET /cache/clear\<close> on a store holding one entry: the store is empty afterwards,
  and the envelope's data is \<^verbatim>\<open>{message: "Cache cleared", previousSize: 0}\<close>, not the
  \<^verbatim>\<open>previousSize: 1\<close> that the number of entries before clearing would give.
\<close>

theorem clear_one_entry_reports_zero:
  "handler e_up \<lparr>http_method = ''GET'', pathname = ''/cache/clear''\<rparr>
     \<lparr>cache = [(''latest'', \<lparr>data = JObj [(''num'', JNum 500)], timestamp = 0\<rparr>)],
      now = 10, fetched = []\<rparr> =
     (\<lparr>status = 200, headers = corsHeaders @ [(''X-Cache'', ''MISS'')],
       content = Success (JObj [(''message'', JStr ''Cache cleared''), (''previousSize'', JNum 0)])
                   False ''/cache/clear'' 10\<rparr>,
      \<lparr>cache = [], now = 10, fetched = []\<rparr>)"
  by (simp add: handler_def route_def number_route_def is_digit_def)

subsection \<open>Unknown paths\<close>

text \<open>
  C6. A request that is not a preflight and whose path is none of \<^verbatim>\<open>/\<close>, \<^verbatim>\<open>/latest\<close>,
  \<^verbatim>\<open>/random\<close>, \<^verbatim>\<open>/cache/stats\<close>, \<^verbatim>\<open>/cache/clear\<close> and not a slash followed by one or
  more digits is answered with status 404 and the envelope
  \<^verbatim>\<open>{success: false, error: "Not Found", path}\<close>; the store is not touched and nothing is
  fetched.
\<close>

theorem unknown_path_not_found:
  assumes "http_method req \<noteq> ''OPTIONS''"
    and "pathname req \<notin> {''/'', ''/latest'', ''/random'', ''/cache/stats'', ''/cache/clear''}"
    and "\<not> (\<exists>ds. ds \<noteq> [] \<and> list_all is_digit ds \<and> pathname req = CHR ''/'' # ds)"
  shows "handler e req w =
           (\<lparr>status = 404, headers = corsHeaders,
             content = Failure ''Not Found'' (Some (pathname req))\<rparr>, w)"
proof -
  have "\<not> number_route (pathname req)"
    using assms(3) by (auto simp: number_route_def split: list.splits)
  with assms(2) have "route e (pathname req) w = None"
    by (simp add: route_def)
  with assms(1) show ?thesis
    by (simp add: handler_def)
qed

theorem unknown_path_not_found_witness:
  "handler e_up \<lparr>http_method = ''GET'', pathname = ''/nonexistent/path''\<rparr> w_latest =
     (\<lparr>status = 404, headers = corsHeaders,
       content = Failure ''Not Found'' (Some ''/nonexistent/path'')\<rparr>, w_latest)"
  using unknown_path_not_found
          [of "\<lparr>http_method = ''GET'', pathname = ''/nonexistent/path''\<rparr>" e_up w_latest]
  by (simp add: is_digit_def)

lemma route_latest:
  "path = ''/'' \<or> path = ''/latest'' \<Longrightarrow> route e path w = Some (''latest'', getLatestXkcd e w)"
  by (auto simp: route_def)

lemma route_random:
  "route e ''/random'' w = Some (''random'', getRandomXkcd e w)"
  by (simp add: route_def)

lemma route_number:
  assumes "ds \<noteq> []" "list_all is_digit ds"
  shows "route e (CHR ''/'' # ds) w =
           Some (''comic-'' @ toString (parseInt ds), getXkcdByNumber e (parseInt ds) w)"
proof -
  have "ds \<noteq> ''latest''" "ds \<noteq> ''random''"
    using assms(2) by (auto simp: is_digit_def)
  with assms show ?thesis
    by (simp add: route_def number_route_Cons Let_def)
qed

lemma handler_success:
  "http_method req \<noteq> ''OPTIONS'' \<Longrightarrow> route e (pathname req) w = Some (endpoint, Inr res, w1) \<Longrightarrow>
   handler e req w =
     (\<lparr>status = 200,
       headers = corsHeaders @ [(''X-Cache'', if cached res then ''HIT'' else ''MISS'')],
       content = Success (payload res) (cached res) endpoint (now w1)\<rparr>, w1)"
  by (simp add: handler_def)

lemma handler_failure:
  "http_method req \<noteq> ''OPTIONS'' \<Longrightarrow> route e (pathname req) w = Some (endpoint, Inl err, w1) \<Longrightarrow>
   handler e req w =
     (\<lparr>status = 500, headers = corsHeaders,
       content = Failure (if message err = [] then ''Internal Server Error'' else message err) None\<rparr>,
      w1)"
  by (simp add: handler_def)

subsection \<open>Store then look up\<close>

text \<open>
  C3, for truthy payloads. After \<^verbatim>\<open>setCache(k, v)\<close> at clock reading \<open>now w\<close>, a lookup at
  a reading \<open>t\<close> less than one hour later returns \<open>v\<close> and leaves the store alone, whatever
  \<open>v\<close> is. When \<open>v\<close> is truthy (every JSON object and array, \<^verbatim>\<open>true\<close>, a number other than
  0, a non-empty string), \<^verbatim>\<open>fetchWithCache\<close> answers \<^verbatim>\<open>{data: v, cached: true}\<close> without
  fetching, and a request for the route of that key (\<^verbatim>\<open>/\<close> or \<^verbatim>\<open>/latest\<close> for the key
  \<^verbatim>\<open>latest\<close>, \<^verbatim>\<open>/{digits}\<close> for \<^verbatim>\<open>comic-{n}\<close>) gets status 200, \<^verbatim>\<open>cached: true\<close> and the
  header \<^verbatim>\<open>X-Cache: HIT\<close>.
\<close>

theorem put_then_get_hit:
  assumes "t - now w < CACHE_DURATION"
  shows "getCached k ((setCache k v w)\<lparr>now := t\<rparr>) = (v, (setCache k v w)\<lparr>now := t\<rparr>)
    \<and> (truthy v \<longrightarrow>
         fetchWithCache e url k ((setCache k v w)\<lparr>now := t\<rparr>) =
           (Inr \<lparr>payload = v, cached = True\<rparr>, (setCache k v w)\<lparr>now := t\<rparr>))
    \<and> (truthy v \<and> http_method req \<noteq> ''OPTIONS''
        \<and> (pathname req = ''/'' \<or> pathname req = ''/latest'') \<longrightarrow>
         handler e req ((setCache ''latest'' v w)\<lparr>now := t\<rparr>) =
           (\<lparr>status = 200, headers = corsHeaders @ [(''X-Cache'', ''HIT'')],
             content = Success v True ''latest'' t\<rparr>, (setCache ''latest'' v w)\<lparr>now := t\<rparr>))
    \<and> (truthy v \<and> http_method req \<noteq> ''OPTIONS''
        \<and> pathname req = CHR ''/'' # ds \<and> ds \<noteq> [] \<and> list_all is_digit ds \<longrightarrow>
         handler e req ((setCache (''comic-'' @ toString (parseInt ds)) v w)\<lparr>now := t\<rparr>) =
           (\<lparr>status = 200, headers = corsHeaders @ [(''X-Cache'', ''HIT'')],
             content = Success v True (''comic-'' @ toString (parseInt ds)) t\<rparr>,
            (setCache (''comic-'' @ toString (parseInt ds)) v w)\<lparr>now := t\<rparr>))"
proof -
  have get: "getCached k' ((setCache k' v w)\<lparr>now := t\<rparr>) = (v, (setCache k' v w)\<lparr>now := t\<rparr>)" for k'
    using assms by (rule getCached_setCache)
  have hit: "fetchWithCache e url' k' ((setCache k' v w)\<lparr>now := t\<rparr>) =
               (Inr \<lparr>payload = v, cached = True\<rparr>, (setCache k' v w)\<lparr>now := t\<rparr>)"
    if "truthy v" for url' k'
    using that fetchWithCache_hit [of k' "(setCache k' v w)\<lparr>now := t\<rparr>" e url'] by (simp add: get)
  have latest: "handler e req ((setCache ''latest'' v w)\<lparr>now := t\<rparr>) =
           (\<lparr>status = 200, headers = corsHeaders @ [(''X-Cache'', ''HIT'')],
             content = Success v True ''latest'' t\<rparr>, (setCache ''latest'' v w)\<lparr>now := t\<rparr>)"
    if "truthy v" "http_method req \<noteq> ''OPTIONS''" "pathname req = ''/'' \<or> pathname req = ''/latest''"
  proof -
    have "route e (pathname req) ((setCache ''latest'' v w)\<lparr>now := t\<rparr>) =
            Some (''latest'', Inr \<lparr>payload = v, cached = True\<rparr>, (setCache ''latest'' v w)\<lparr>now := t\<rparr>)"
      using that(3) by (simp add: route_latest getLatestXkcd_def hit [OF that(1)])
    from handler_success [OF that(2) this] show ?thesis
      by (simp add: setCache_def)
  qed
  have comic: "handler e req ((setCache (''comic-'' @ toString (parseInt ds)) v w)\<lparr>now := t\<rparr>) =
           (\<lparr>status = 200, headers = corsHeaders @ [(''X-Cache'', ''HIT'')],
             content = Success v True (''comic-'' @ toString (parseInt ds)) t\<rparr>,
            (setCache (''comic-'' @ toString (parseInt ds)) v w)\<lparr>now := t\<rparr>)"
    if "truthy v" "http_method req \<noteq> ''OPTIONS''" "pathname req = CHR ''/'' # ds"
       "ds \<noteq> []" "list_all is_digit ds"
  proof -
    have "route e (pathname req) ((setCache (''comic-'' @ toString (parseInt ds)) v w)\<lparr>now := t\<rparr>) =
            Some (''comic-'' @ toString (parseInt ds), Inr \<lparr>payload = v, cached = True\<rparr>,
                  (setCache (''comic-'' @ toString (parseInt ds)) v w)\<lparr>now := t\<rparr>)"
      using that(3) by (simp add: route_number [OF that(4,5)] getXkcdByNumber_def hit [OF that(1)])
    from handler_success [OF that(2) this] show ?thesis
      by (simp add: setCache_def)
  qed
  show ?thesis
    using get hit latest comic by blast
qed

theorem put_then_get_hit_witness:
  "getCached ''latest'' ((setCache ''latest'' (JObj [(''num'', JNum 500)]) w_empty)\<lparr>now := 3599999\<rparr>)
     = (JObj [(''num'', JNum 500)],
        (setCache ''latest'' (JObj [(''num'', JNum 500)]) w_empty)\<lparr>now := 3599999\<rparr>)
   \<and> fetchWithCache e_up ''https://xkcd.com/info.0.json'' ''latest''
        ((setCache ''latest'' (JObj [(''num'', JNum 500)]) w_empty)\<lparr>now := 3599999\<rparr>)
     = (Inr \<lparr>payload = JObj [(''num'', JNum 500)], cached = True\<rparr>,
        (setCache ''latest'' (JObj [(''num'', JNum 500)]) w_empty)\<lparr>now := 3599999\<rparr>)
   \<and> handler e_up \<lparr>http_method = ''GET'', pathname = ''/latest''\<rparr>
        ((setCache ''latest'' (JObj [(''num'', JNum 500)]) w_empty)\<lparr>now := 3599999\<rparr>)
     = (\<lparr>status = 200, headers = corsHeaders @ [(''X-Cache'', ''HIT'')],
         content = Success (JObj [(''num'', JNum 500)]) True ''latest'' 3599999\<rparr>,
        (setCache ''latest'' (JObj [(''num'', JNum 500)]) w_empty)\<lparr>now := 3599999\<rparr>)
   \<and> handler e_up \<lparr>http_method = ''GET'', pathname = ''/42''\<rparr>
        ((setCache ''comic-42'' (JObj [(''num'', JNum 42)]) w_empty)\<lparr>now := 3599999\<rparr>)
     = (\<lparr>status = 200, headers = corsHeaders @ [(''X-Cache'', ''HIT'')],
         content = Success (JObj [(''num'', JNum 42)]) True ''comic-42'' 3599999\<rparr>,
        (setCache ''comic-42'' (JObj [(''num'', JNum 42)]) w_empty)\<lparr>now := 3599999\<rparr>)"
  using put_then_get_hit [of 3599999 w_empty "''latest''" "JObj [(''num'', JNum 500)]" e_up
          "''https://xkcd.com/info.0.json''" "\<lparr>http_method = ''GET'', pathname = ''/latest''\<rparr>" "''42''"]
        put_then_get_hit [of 3599999 w_empty "''latest''" "JObj [(''num'', JNum 42)]" e_up
          "''https://xkcd.com/info.0.json''" "\<lparr>http_method = ''GET'', pathname = ''/42''\<rparr>" "''42''"]
  by (simp add: w_empty_def CACHE_DURATION_def is_digit_def parseInt_def digit_val_def
        show_nat.simps digit_char_def)

text \<open>
  The payload \<^verbatim>\<open>null\<close> (an upstream body \<^verbatim>\<open>null\<close> parses to it) is stored like any other,
  but the lookup's answer \<^verbatim>\<open>null\<close> is what \<^verbatim>\<open>getCached\<close> also returns for no entry, and
  \<^verbatim>\<open>if (cached)\<close> takes it for a miss: the request right after the store fetches again
  and is marked \<^verbatim>\<open>cached: false\<close>, \<^verbatim>\<open>X-Cache: MISS\<close>.
\<close>

theorem null_payload_is_refetched:
  "getCached ''latest'' (setCache ''latest'' JNull w_empty) = (JNull, setCache ''latest'' JNull w_empty)
   \<and> handler e_up \<lparr>http_method = ''GET'', pathname = ''/latest''\<rparr> (setCache ''latest'' JNull w_empty)
     = (\<lparr>status = 200, headers = corsHeaders @ [(''X-Cache'', ''MISS'')],
         content = Success (JObj [(''num'', JNum 500)]) False ''latest'' 5\<rparr>,
        \<lparr>cache = [(''latest'', \<lparr>data = JObj [(''num'', JNum 500)], timestamp = 5\<rparr>)],
         now = 5, fetched = [''https://xkcd.com/info.0.json'']\<rparr>)"
  by (simp add: handler_def route_def getLatestXkcd_def fetchWithCache_def getCached_def
        setCache_def w_empty_def e_up_def CACHE_DURATION_def ok_def)

subsection \<open>The random draw\<close>





subsection \<open>Failing fetches\<close>

lemma fetchWithCache_Inl:
  assumes "fetchWithCache e url k w = (Inl err, w1)"
  shows "\<not> truthy (fst (getCached k w))"
    and "w1 = (snd (getCached k w))\<lparr>now := now w + fst (fetch e url), fetched := fetched w @ [url]\<rparr>"
proof -
  show m: "\<not> truthy (fst (getCached k w))"
    using assms fetchWithCache_hit [of k w e url] by auto
  obtain latency outcome where f: "fetch e url = (latency, outcome)"
    by (cases "fetch e url")
  show "w1 = (snd (getCached k w))\<lparr>now := now w + fst (fetch e url), fetched := fetched w @ [url]\<rparr>"
    using assms fetchWithCache_miss [OF m f]
    by (auto simp: f Let_def split: fetch_result.splits if_splits sum.splits)
qed

lemma fetchWithCache_random [simp]:
  "fetchWithCache (e\<lparr>random := r\<rparr>) url k w = fetchWithCache e url k w"
  by (cases "getCached k w") (simp add: fetchWithCache_def)

lemma sublist_status_message:
  "sublist (show_nat st) (''HTTP '' @ show_nat st @ '': '' @ reason)"
  "sublist reason (''HTTP '' @ show_nat st @ '': '' @ reason)"
proof -
  show "sublist (show_nat st) (''HTTP '' @ show_nat st @ '': '' @ reason)"
    by (rule sublist_appendI)
  have "sublist reason ((''HTTP '' @ show_nat st @ '': '') @ reason @ [])"
    by (rule sublist_appendI)
  then show "sublist reason (''HTTP '' @ show_nat st @ '': '' @ reason)"
    by simp
qed

text \<open>
  C5. When the lookup for the key misses and the upstream answers the URL with a status
  outside 200..299, \<^verbatim>\<open>fetchWithCache\<close> throws an \<^verbatim>\<open>Error\<close> whose message is
  \<^verbatim>\<open>HTTP {status}: {statusText}\<close>, which contains the decimal status code and the reason.
  The handler answers each fetching route (\<^verbatim>\<open>/\<close>, \<^verbatim>\<open>/latest\<close>, \<^verbatim>\<open>/random\<close> on its first
  fetch, \<^verbatim>\<open>/{digits}\<close>), and any route whose operation throws that error, with status 500
  and the envelope \<^verbatim>\<open>{success: false, error: message}\<close>.
\<close>

theorem upstream_status_becomes_500:
  assumes "\<not> ok st"
    and "fetch e url = (latency, Resolved st reason body)"
    and "\<not> truthy (fst (getCached k w))"
    and "w2 = (snd (getCached k w))\<lparr>now := now w + latency, fetched := fetched w @ [url]\<rparr>"
    and "msg = ''HTTP '' @ show_nat st @ '': '' @ reason"
  shows "fetchWithCache e url k w = (Inl (Error msg), w2)
    \<and> sublist (show_nat st) msg \<and> sublist reason msg
    \<and> (http_method req \<noteq> ''OPTIONS'' \<and> (pathname req = ''/'' \<or> pathname req = ''/latest'')
        \<and> url = ''https://xkcd.com/info.0.json'' \<and> k = ''latest'' \<longrightarrow>
         handler e req w = (\<lparr>status = 500, headers = corsHeaders, content = Failure msg None\<rparr>, w2))
    \<and> (http_method req \<noteq> ''OPTIONS'' \<and> pathname req = ''/random''
        \<and> url = ''https://xkcd.com/info.0.json'' \<and> k = ''latest'' \<longrightarrow>
         handler e req w = (\<lparr>status = 500, headers = corsHeaders, content = Failure msg None\<rparr>, w2))
    \<and> (http_method req \<noteq> ''OPTIONS'' \<and> pathname req = CHR ''/'' # ds \<and> ds \<noteq> []
        \<and> list_all is_digit ds \<and> url = ''https://xkcd.com/'' @ toString (parseInt ds) @ ''/info.0.json''
        \<and> k = ''comic-'' @ toString (parseInt ds) \<longrightarrow>
         handler e req w = (\<lparr>status = 500, headers = corsHeaders, content = Failure msg None\<rparr>, w2))
    \<and> (\<forall>ep w0 w3. http_method req \<noteq> ''OPTIONS''
          \<and> route e (pathname req) w0 = Some (ep, Inl (Error msg), w3) \<longrightarrow>
         handler e req w0 = (\<lparr>status = 500, headers = corsHeaders, content = Failure msg None\<rparr>, w3))"
proof -
  have f: "fetchWithCache e url k w = (Inl (Error msg), w2)"
    using fetchWithCache_miss [OF assms(3) assms(2)] assms(1,4,5) by (simp add: Let_def)
  have m: "message (Error msg) \<noteq> []"
    by (simp add: assms(5))
  have g: "handler e req w0 = (\<lparr>status = 500, headers = corsHeaders, content = Failure msg None\<rparr>, w3)"
    if "http_method req \<noteq> ''OPTIONS''" "route e (pathname req) w0 = Some (ep, Inl (Error msg), w3)"
    for ep w0 w3
    using handler_failure [OF that] m by simp
  note h = g [where ?w0.0 = w and ?w3.0 = w2]
  have "handler e req w = (\<lparr>status = 500, headers = corsHeaders, content = Failure msg None\<rparr>, w2)"
    if "http_method req \<noteq> ''OPTIONS''" "pathname req = ''/'' \<or> pathname req = ''/latest''"
       "url = ''https://xkcd.com/info.0.json''" "k = ''latest''"
    using that f by (intro h [of "''latest''"]) (simp_all add: route_latest getLatestXkcd_def)
  moreover have "handler e req w = (\<lparr>status = 500, headers = corsHeaders, content = Failure msg None\<rparr>, w2)"
    if "http_method req \<noteq> ''OPTIONS''" "pathname req = ''/random''"
       "url = ''https://xkcd.com/info.0.json''" "k = ''latest''"
    using that f by (intro h [of "''random''"]) (simp_all add: route_random getRandomXkcd_def getLatestXkcd_def)
  moreover have "handler e req w = (\<lparr>status = 500, headers = corsHeaders, content = Failure msg None\<rparr>, w2)"
    if "http_method req \<noteq> ''OPTIONS''" "pathname req = CHR ''/'' # ds" "ds \<noteq> []" "list_all is_digit ds"
       "url = ''https://xkcd.com/'' @ toString (parseInt ds) @ ''/info.0.json''"
       "k = ''comic-'' @ toString (parseInt ds)"
    using that f by (intro h [of "''comic-'' @ toString (parseInt ds)"]) (simp_all add: route_number getXkcdByNumber_def)
  ultimately show ?thesis
    using f g sublist_status_message assms(5) by blast
qed

theorem upstream_status_becomes_500_witness:
  "fetchWithCache e_503 ''https://xkcd.com/info.0.json'' ''latest'' w_empty =
     (Inl (Error ''HTTP 503: Service Unavailable''),
      \<lparr>cache = [], now = 7, fetched = [''https://xkcd.com/info.0.json'']\<rparr>)
   \<and> sublist ''503'' ''HTTP 503: Service Unavailable''
   \<and> handler e_503 \<lparr>http_method = ''GET'', pathname = ''/latest''\<rparr> w_empty =
       (\<lparr>status = 500, headers = corsHeaders,
         content = Failure ''HTTP 503: Service Unavailable'' None\<rparr>,
        \<lparr>cache = [], now = 7, fetched = [''https://xkcd.com/info.0.json'']\<rparr>)
   \<and> handler e_503 \<lparr>http_method = ''GET'', pathname = ''/random''\<rparr> w_empty =
       (\<lparr>status = 500, headers = corsHeaders,
         content = Failure ''HTTP 503: Service Unavailable'' None\<rparr>,
        \<lparr>cache = [], now = 7, fetched = [''https://xkcd.com/info.0.json'']\<rparr>)
   \<and> handler e_503 \<lparr>http_method = ''GET'', pathname = ''/42''\<rparr> w_empty =
       (\<lparr>status = 500, headers = corsHeaders,
         content = Failure ''HTTP 503: Service Unavailable'' None\<rparr>,
        \<lparr>cache = [], now = 7, fetched = [''https://xkcd.com/42/info.0.json'']\<rparr>)"
  using upstream_status_becomes_500 [of 503 e_503 "''https://xkcd.com/info.0.json''" 7
          "''Service Unavailable''" "Inl ''Unexpected token''" "''latest''" w_empty
          "\<lparr>cache = [], now = 7, fetched = [''https://xkcd.com/info.0.json'']\<rparr>"
          "''HTTP 503: Service Unavailable''" "\<lparr>http_method = ''GET'', pathname = ''/latest''\<rparr>" "''0''"]
        upstream_status_becomes_500 [of 503 e_503 "''https://xkcd.com/info.0.json''" 7
          "''Service Unavailable''" "Inl ''Unexpected token''" "''latest''" w_empty
          "\<lparr>cache = [], now = 7, fetched = [''https://xkcd.com/info.0.json'']\<rparr>"
          "''HTTP 503: Service Unavailable''" "\<lparr>http_method = ''GET'', pathname = ''/random''\<rparr>" "''0''"]
        upstream_status_becomes_500 [of 503 e_503 "''https://xkcd.com/42/info.0.json''" 7
          "''Service Unavailable''" "Inl ''Unexpected token''" "''comic-42''" w_empty
          "\<lparr>cache = [], now = 7, fetched = [''https://xkcd.com/42/info.0.json'']\<rparr>"
          "''HTTP 503: Service Unavailable''" "\<lparr>http_method = ''GET'', pathname = ''/42''\<rparr>" "''42''"]
  by (simp add: ok_def e_503_def w_empty_def getCached_def show_nat.simps digit_char_def
        is_digit_def parseInt_def digit_val_def)

subsection \<open>The random operation when the latest comic cannot be fetched\<close>

text \<open>
  C7. When \<^verbatim>\<open>getLatestXkcd\<close> throws, \<^verbatim>\<open>getRandomXkcd\<close> throws the same error and leaves
  the world as the failed latest fetch left it: whatever \<^verbatim>\<open>Math.random()\<close> would return,
  the one URL fetched is that of the latest comic, and \<^verbatim>\<open>/random\<close> is answered with
  status 500 and that error's message.
\<close>

theorem random_fails_with_latest:
  assumes "getLatestXkcd e w = (Inl err, w1)"
  shows "getRandomXkcd e w = (Inl err, w1)
    \<and> (\<forall>r. getRandomXkcd (e\<lparr>random := r\<rparr>) w = (Inl err, w1))
    \<and> fetched w1 = fetched w @ [''https://xkcd.com/info.0.json'']
    \<and> (http_method req \<noteq> ''OPTIONS'' \<and> pathname req = ''/random'' \<longrightarrow>
         handler e req w =
           (\<lparr>status = 500, headers = corsHeaders,
             content = Failure (if message err = [] then ''Internal Server Error'' else message err)
                         None\<rparr>, w1))"
proof -
  have r: "getRandomXkcd e w = (Inl err, w1)"
    using assms by (simp add: getRandomXkcd_def)
  have "getLatestXkcd (e\<lparr>random := r\<rparr>) w = (Inl err, w1)" for r
    using assms by (simp add: getLatestXkcd_def)
  then have a: "getRandomXkcd (e\<lparr>random := r\<rparr>) w = (Inl err, w1)" for r
    by (simp add: getRandomXkcd_def)
  have f: "fetched w1 = fetched w @ [''https://xkcd.com/info.0.json'']"
    using fetchWithCache_Inl(2) [of e "''https://xkcd.com/info.0.json''" "''latest''" w err w1] assms
    by (simp add: getLatestXkcd_def)
  have "handler e req w =
           (\<lparr>status = 500, headers = corsHeaders,
             content = Failure (if message err = [] then ''Internal Server Error'' else message err)
                         None\<rparr>, w1)"
    if "http_method req \<noteq> ''OPTIONS''" "pathname req = ''/random''"
    using that r by (intro handler_failure [of _ _ _ "''random''"]) (simp_all add: route_random)
  with r a f show ?thesis by blast
qed

theorem random_fails_with_latest_witness:
  "getRandomXkcd e_503 w_empty =
     (Inl (Error ''HTTP 503: Service Unavailable''),
      \<lparr>cache = [], now = 7, fetched = [''https://xkcd.com/info.0.json'']\<rparr>)
   \<and> handler e_503 \<lparr>http_method = ''GET'', pathname = ''/random''\<rparr> w_empty =
       (\<lparr>status = 500, headers = corsHeaders,
         content = Failure ''HTTP 503: Service Unavailable'' None\<rparr>,
        \<lparr>cache = [], now = 7, fetched = [''https://xkcd.com/info.0.json'']\<rparr>)"
  using random_fails_with_latest [of e_503 w_empty "Error ''HTTP 503: Service Unavailable''"
          "\<lparr>cache = [], now = 7, fetched = [''https://xkcd.com/info.0.json'']\<rparr>"
          "\<lparr>http_method = ''GET'', pathname = ''/random''\<rparr>"]
  by (simp add: getLatestXkcd_def fetchWithCache_def getCached_def e_503_def w_empty_def ok_def
        show_nat.simps digit_char_def)

subsection \<open>The store after a failed fetch\<close>

lemma getCached_cache:
  "cache (snd (getCached k w)) =
     (if \<exists>c. map_of (cache w) k = Some c \<and> \<not> now w - timestamp c < CACHE_DURATION
      then AList.delete k (cache w) else cache w)"
  by (auto simp: getCached_def Let_def split: option.splits)



subsection \<open>The numeric route\<close>









text \<open>A run: \<^verbatim>\<open>/007\<close> on an empty store fills \<^verbatim>\<open>comic-7\<close>, and \<^verbatim>\<open>/7\<close> is then a hit.\<close>

lemma shared_entry_run:
  "snd (handler e_up \<lparr>http_method = ''GET'', pathname = ''/007''\<rparr> w_empty) =
     \<lparr>cache = [(''comic-7'', \<lparr>data = JObj [(''num'', JNum 500)], timestamp = 5\<rparr>)],
      now = 5, fetched = [''https://xkcd.com/7/info.0.json'']\<rparr>
   \<and> handler e_up \<lparr>http_method = ''GET'', pathname = ''/7''\<rparr>
       (snd (handler e_up \<lparr>http_method = ''GET'', pathname = ''/007''\<rparr> w_empty)) =
     (\<lparr>status = 200, headers = corsHeaders @ [(''X-Cache'', ''HIT'')],
       content = Success (JObj [(''num'', JNum 500)]) True ''comic-7'' 5\<rparr>,
      \<lparr>cache = [(''comic-7'', \<lparr>data = JObj [(''num'', JNum 500)], timestamp = 5\<rparr>)],
       now = 5, fetched = [''https://xkcd.com/7/info.0.json'']\<rparr>)"
  by (simp add: handler_def route_def number_route_def is_digit_def parseInt_def digit_val_def
        show_nat.simps digit_char_def getXkcdByNumber_def fetchWithCache_def getCached_def
        setCache_def w_empty_def e_up_def ok_def CACHE_DURATION_def)

subsection \<open>The keys of the store stay distinct\<close>

text \<open>
  The store starts empty, and no operation gives a key a second entry: the hypothesis of
  distinct keys used for the size of the store holds in every world a sequence of requests
  reaches.
\<close>

lemma setCache_distinct:
  "distinct (map fst (cache w)) \<Longrightarrow> distinct (map fst (cache (setCache k d w)))"
  by (simp add: setCache_def AList.distinct_update)

lemma getCached_distinct:
  "distinct (map fst (cache w)) \<Longrightarrow> distinct (map fst (cache (snd (getCached k w))))"
  by (simp add: getCached_cache AList.distinct_delete)

lemma fetchWithCache_distinct:
  assumes "distinct (map fst (cache w))"
  shows "distinct (map fst (cache (snd (fetchWithCache e url k w))))"
proof (cases "truthy (fst (getCached k w))")
  case True
  then show ?thesis
    by (simp add: fetchWithCache_hit getCached_distinct [OF assms])
next
  case False
  obtain latency outcome where f: "fetch e url = (latency, outcome)"
    by (cases "fetch e url")
  have u: "distinct (map fst (cache ((snd (getCached k w))\<lparr>now := n, fetched := fs\<rparr>)))" for n fs
    using getCached_distinct [OF assms, of k] by simp
  show ?thesis
    using u by (simp add: fetchWithCache_miss [OF False f] Let_def setCache_distinct
                  split: fetch_result.splits sum.splits)
qed

lemma getRandomXkcd_distinct:
  assumes "distinct (map fst (cache w))"
  shows "distinct (map fst (cache (snd (getRandomXkcd e w))))"
proof -
  have l: "distinct (map fst (cache (snd (getLatestXkcd e w))))"
    using assms by (simp add: getLatestXkcd_def fetchWithCache_distinct)
  show ?thesis
    using l by (auto simp: getRandomXkcd_def getXkcdByNumber_def fetchWithCache_distinct
                  split: prod.splits sum.splits)
qed

lemma handler_distinct:
  assumes "distinct (map fst (cache w))"
  shows "distinct (map fst (cache (snd (handler e req w))))"
proof -
  have "distinct (map fst (cache (snd (snd r))))" if "route e (pathname req) w = Some r" for r
    using that assms
    by (auto simp: route_def Let_def getLatestXkcd_def getXkcdByNumber_def
          fetchWithCache_distinct getRandomXkcd_distinct
          split: if_splits)
  then show ?thesis
    using assms by (auto simp: handler_def Let_def split: option.splits sum.splits prod.splits)
qed

end
